theory Spec2Isabelle
  imports Main "HOL-Library.Word"
begin

section \<open>Platform values used by desktop\_duplication.cc\<close>

text \<open>
  The module talks to Direct3D 11 and DXGI. Every platform call returns an
  \<open>HRESULT\<close>, a signed 32-bit value; \<open>UINT\<close> is an unsigned 32-bit value and
  \<open>m_frame_count\<close> is a \<open>uint64_t\<close>. A \<open>ComPtr\<close> is either null or holds a
  reference to a platform object, which is named here by a number.
\<close>

type_synonym HRESULT = "32 word"
type_synonym UINT = "32 word"
type_synonym handle = nat

text \<open>
  The bytes a mapped staging surface shows at \<open>pData\<close>, by offset.
\<close>

type_synonym pixels = "nat \<Rightarrow> 8 word"

text \<open>
  Modelled from the spec: the Windows SDK headers that declare \<open>FAILED\<close>,
  \<open>SUCCEEDED\<close>, \<open>S_OK\<close>, \<open>DXGI_ERROR_WAIT_TIMEOUT\<close>,
  \<open>DXGI_ERROR_ACCESS_LOST\<close> and \<open>DXGI_ERROR_INVALID_CALL\<close> are not part of
  the repository. \<open>FAILED\<close> is the sign test of the 32-bit value; the spec's
  "wait times out", "duplication interface has been invalidated" and
  "any other reason" are the three codes below, with the values of winerror.h.
\<close>

definition FAILED :: "HRESULT \<Rightarrow> bool" where
  "FAILED hr = (sint hr < 0)"

definition SUCCEEDED :: "HRESULT \<Rightarrow> bool" where
  "SUCCEEDED hr = (0 \<le> sint hr)"

definition S_OK :: HRESULT where
  "S_OK = 0"

definition DXGI_ERROR_WAIT_TIMEOUT :: HRESULT where
  "DXGI_ERROR_WAIT_TIMEOUT = 0x887A0027"

definition DXGI_ERROR_ACCESS_LOST :: HRESULT where
  "DXGI_ERROR_ACCESS_LOST = 0x887A0026"

definition DXGI_ERROR_INVALID_CALL :: HRESULT where
  "DXGI_ERROR_INVALID_CALL = 0x887A0001"

text \<open>
  The fields of \<open>DXGI_OUTDUPL_DESC\<close> that the module reads.
\<close>

record DXGI_RATIONAL =
  Numerator :: UINT
  Denominator :: UINT

record DXGI_MODE_DESC =
  Width :: UINT
  Height :: UINT
  RefreshRate :: DXGI_RATIONAL
  Format :: UINT

record DXGI_OUTDUPL_DESC =
  ModeDesc :: DXGI_MODE_DESC

section \<open>The platform calls a method makes\<close>

text \<open>
  Each platform call the module makes is recorded, in order, in a log kept
  beside the object's fields. A \<open>ComPtr\<close> that drops a reference it holds
  (\<open>Reset\<close>, or \<open>operator&\<close> before the pointer is passed as an output
  parameter) is recorded as \<open>EvRelease\<close>; on a null pointer both do nothing.
\<close>

datatype resource = Device | Context | Duplication | Staging

datatype event =
    EvD3D11CreateDevice HRESULT
  | EvQueryDXGIDevice HRESULT
  | EvGetAdapter HRESULT
  | EvEnumOutputs "32 word" HRESULT
  | EvQueryOutput1 HRESULT
  | EvDuplicateOutput HRESULT
  | EvGetDesc
  | EvCreateTexture2D UINT UINT UINT HRESULT
  | EvAcquireNextFrame HRESULT
  | EvQueryTexture HRESULT
  | EvCopyResource
  | EvReleaseFrame
  | EvMap HRESULT
  | EvUnmap
  | EvRelease resource handle

section \<open>The class DesktopDuplicator\<close>

text \<open>
  The members \<open>device_\<close>, \<open>context_\<close>, \<open>duplication_\<close>, \<open>staging_texture_\<close>,
  \<open>duplication_desc_\<close>, \<open>initialized_\<close> and \<open>frame_count_\<close> of the class are
  written \<open>m_device\<close>, \<open>m_context\<close> and so on, since a name cannot end with an
  underscore here. \<open>staging_pixels\<close> is the content of the staging texture and
  \<open>platform_log\<close> the list of platform calls made so far; neither is a member
  of the class.
\<close>

record DesktopDuplicator =
  m_device :: "handle option"
  m_context :: "handle option"
  m_duplication :: "handle option"
  m_staging_texture :: "handle option"
  m_duplication_desc :: DXGI_OUTDUPL_DESC
  m_initialized :: bool
  m_frame_count :: "64 word"
  staging_pixels :: pixels
  platform_log :: "event list"

text \<open>
  A newly constructed object: the four \<open>ComPtr\<close>s are null, \<open>m_initialized\<close>
  is false and \<open>m_frame_count\<close> is 0. \<open>m_duplication_desc\<close> has no initialiser
  in the class, so its first value is whatever the argument says, and so is the
  content of the staging surface, which does not exist yet.
\<close>

definition fresh :: "DXGI_OUTDUPL_DESC \<Rightarrow> pixels \<Rightarrow> DesktopDuplicator" where
  "fresh d px = \<lparr> m_device = None, m_context = None, m_duplication = None,
     m_staging_texture = None, m_duplication_desc = d, m_initialized = False,
     m_frame_count = 0, staging_pixels = px, platform_log = [] \<rparr>"

definition emit :: "event list \<Rightarrow> DesktopDuplicator \<Rightarrow> DesktopDuplicator" where
  "emit es s = s\<lparr> platform_log := platform_log s @ es \<rparr>"

definition dropped :: "resource \<Rightarrow> handle option \<Rightarrow> event list" where
  "dropped r p = (case p of None \<Rightarrow> [] | Some h \<Rightarrow> [EvRelease r h])"

subsection \<open>What a method gives back to JavaScript\<close>

record texture_obj =
  tex_data :: "8 word list"
  tex_width :: UINT
  tex_height :: UINT
  tex_pitch :: UINT

text \<open>
  \<open>refreshRate\<close> is the floating-point quotient of the two fields kept here;
  \<open>frameCount\<close> is \<open>m_frame_count\<close> converted to a double, which is exact
  below \<open>2 ^ 53\<close>, and is kept here as the 64-bit value.
\<close>

record frame_info_obj =
  info_width :: UINT
  info_height :: UINT
  info_refresh_num :: UINT
  info_refresh_den :: UINT
  info_frameCount :: "64 word"

datatype js_value =
    Undefined
  | Boolean bool
  | Number int
  | TextureObj texture_obj
  | FrameInfoObj frame_info_obj

text \<open>
  A method either returns a value, or leaves a JavaScript exception pending
  (\<open>ThrowAsJavaScriptException\<close>) and returns the value written after it, or
  calls a method through a null \<open>ComPtr\<close>. \<open>Terminate\<close> is the end of the
  process when a C++ exception leaves a destructor.
\<close>

datatype completion =
    Normal js_value
  | Throw string js_value
  | NullDeref
  | Terminate

subsection \<open>What the platform answers\<close>

text \<open>
  The answers of the platform calls made by one \<open>initialize\<close>. A call that
  succeeds stores the new object in the \<open>ComPtr\<close> it was given; a call that
  fails leaves that \<open>ComPtr\<close> null.
\<close>

record init_env =
  hr_create_device :: HRESULT
  new_device :: handle
  new_context :: handle
  hr_query_dxgi_device :: HRESULT
  hr_get_adapter :: HRESULT
  hr_enum_outputs :: HRESULT
  hr_query_output1 :: HRESULT
  hr_duplicate_output :: HRESULT
  new_duplication :: handle
  out_desc :: DXGI_OUTDUPL_DESC
  hr_create_texture :: HRESULT
  new_staging :: handle
  new_staging_pixels :: pixels

record capture_env =
  hr_acquire :: HRESULT
  hr_query_texture :: HRESULT
  frame_pixels :: pixels

record texture_env =
  hr_map :: HRESULT
  RowPitch :: UINT

subsection \<open>InitializeD3D11 and CreateDuplication\<close>

text \<open>
  \<open>InitializeD3D11\<close> passes \<open>&device_\<close> and \<open>&context_\<close> to
  \<open>D3D11CreateDevice\<close>, so both pointers drop what they hold before the call.
  C++ does not fix the order in which the two arguments are evaluated; the log
  has the context dropped first, and nothing below depends on that order.
  \<open>CreateDuplication\<close> calls through \<open>device_\<close> first (\<open>Fault\<close> when it
  is null), returns false at the first failing step, and passes
  \<open>&duplication_\<close> to \<open>DuplicateOutput\<close> and \<open>&staging_texture_\<close> to
  \<open>CreateTexture2D\<close>. The interfaces it obtains on the way (DXGI device,
  adapter, output) are local and leave no trace but the log.
\<close>

datatype 'a helper_result = Ok 'a | Fault

definition InitializeD3D11 :: "init_env \<Rightarrow> DesktopDuplicator \<Rightarrow> bool \<times> DesktopDuplicator" where
  "InitializeD3D11 e s =
    (let s1 = emit (dropped Context (m_context s) @ dropped Device (m_device s)
                    @ [EvD3D11CreateDevice (hr_create_device e)]) s
     in if SUCCEEDED (hr_create_device e)
        then (True, s1\<lparr> m_device := Some (new_device e), m_context := Some (new_context e) \<rparr>)
        else (False, s1\<lparr> m_device := None, m_context := None \<rparr>))"

definition CreateDuplication ::
  "init_env \<Rightarrow> 32 word \<Rightarrow> DesktopDuplicator \<Rightarrow> bool helper_result \<times> DesktopDuplicator" where
  "CreateDuplication e output_index s =
    (case m_device s of
       None \<Rightarrow> (Fault, s)
     | Some dev \<Rightarrow>
        let s1 = emit [EvQueryDXGIDevice (hr_query_dxgi_device e)] s in
        if FAILED (hr_query_dxgi_device e) then (Ok False, s1) else
        let s2 = emit [EvGetAdapter (hr_get_adapter e)] s1 in
        if FAILED (hr_get_adapter e) then (Ok False, s2) else
        let s3 = emit [EvEnumOutputs output_index (hr_enum_outputs e)] s2 in
        if FAILED (hr_enum_outputs e) then (Ok False, s3) else
        let s4 = emit [EvQueryOutput1 (hr_query_output1 e)] s3 in
        if FAILED (hr_query_output1 e) then (Ok False, s4) else
        let s5 = emit (dropped Duplication (m_duplication s4)
                       @ [EvDuplicateOutput (hr_duplicate_output e)]) s4 in
        if FAILED (hr_duplicate_output e) then (Ok False, s5\<lparr> m_duplication := None \<rparr>) else
        let s6 = (emit [EvGetDesc] s5)\<lparr> m_duplication := Some (new_duplication e),
                                          m_duplication_desc := out_desc e \<rparr> in
        let s7 = emit (dropped Staging (m_staging_texture s6)
                       @ [EvCreateTexture2D (Width (ModeDesc (m_duplication_desc s6)))
                            (Height (ModeDesc (m_duplication_desc s6)))
                            (Format (ModeDesc (m_duplication_desc s6)))
                            (hr_create_texture e)]) s6 in
        if SUCCEEDED (hr_create_texture e)
        then (Ok True, s7\<lparr> m_staging_texture := Some (new_staging e),
                            staging_pixels := new_staging_pixels e \<rparr>)
        else (Ok False, s7\<lparr> m_staging_texture := None \<rparr>))"

subsection \<open>The five methods\<close>

text \<open>
  \<open>Int32Value\<close> of a JavaScript number with an integral value is that value
  modulo \<open>2 ^ 32\<close>.
\<close>

definition output_index_of :: "js_value list \<Rightarrow> 32 word" where
  "output_index_of args = (case args of Number n # _ \<Rightarrow> word_of_int n | _ \<Rightarrow> 0)"

definition Initialize ::
  "js_value list \<Rightarrow> init_env \<Rightarrow> DesktopDuplicator \<Rightarrow> completion \<times> DesktopDuplicator" where
  "Initialize args e s =
    (if m_initialized s then (Normal (Boolean True), s) else
     let output_index = output_index_of args in
     case InitializeD3D11 e s of (ok, s1) \<Rightarrow>
       if \<not> ok then (Throw ''Failed to initialize D3D11'' (Boolean False), s1) else
       (case CreateDuplication e output_index s1 of
          (Fault, s2) \<Rightarrow> (NullDeref, s2)
        | (Ok ok2, s2) \<Rightarrow>
            if \<not> ok2 then (Throw ''Failed to create desktop duplication'' (Boolean False), s2)
            else (Normal (Boolean True), s2\<lparr> m_initialized := True \<rparr>)))"

definition CaptureFrame :: "capture_env \<Rightarrow> DesktopDuplicator \<Rightarrow> completion \<times> DesktopDuplicator" where
  "CaptureFrame e s =
    (if \<not> m_initialized s then (Throw ''Not initialized'' Undefined, s) else
     case m_duplication s of
       None \<Rightarrow> (NullDeref, s)
     | Some dup \<Rightarrow>
        let s1 = emit [EvAcquireNextFrame (hr_acquire e)] s in
        if hr_acquire e = DXGI_ERROR_WAIT_TIMEOUT then (Normal (Boolean False), s1) else
        if FAILED (hr_acquire e) then
          (if hr_acquire e = DXGI_ERROR_ACCESS_LOST
           then (Normal (Boolean False), s1\<lparr> m_initialized := False \<rparr>)
           else (Normal (Boolean False), s1)) else
        let s2 = emit [EvQueryTexture (hr_query_texture e)] s1 in
        if FAILED (hr_query_texture e) then (Normal (Boolean False), emit [EvReleaseFrame] s2) else
        (case m_staging_texture s2 of
           None \<Rightarrow>
             let s4 = emit [EvReleaseFrame] s2 in
             (Normal (Boolean True), s4\<lparr> m_frame_count := m_frame_count s4 + 1 \<rparr>)
         | Some tex \<Rightarrow>
             (case m_context s2 of
                None \<Rightarrow> (NullDeref, s2)
              | Some ctx \<Rightarrow>
                 let s3 = (emit [EvCopyResource] s2)\<lparr> staging_pixels := frame_pixels e \<rparr> in
                 let s4 = emit [EvReleaseFrame] s3 in
                 (Normal (Boolean True), s4\<lparr> m_frame_count := m_frame_count s4 + 1 \<rparr>))))"

text \<open>
  \<open>data_size\<close> is the product of two \<open>UINT\<close>s, formed in 32 bits before it
  is widened to \<open>size_t\<close>; the buffer is a copy of that many bytes from
  \<open>pData\<close>.
\<close>

definition GetTexture :: "texture_env \<Rightarrow> DesktopDuplicator \<Rightarrow> completion \<times> DesktopDuplicator" where
  "GetTexture e s =
    (case m_staging_texture s of
       None \<Rightarrow> (Normal Undefined, s)
     | Some tex \<Rightarrow>
        (case m_context s of
           None \<Rightarrow> (NullDeref, s)
         | Some ctx \<Rightarrow>
            let s1 = emit [EvMap (hr_map e)] s in
            if FAILED (hr_map e) then (Normal Undefined, s1) else
            let data_size = Height (ModeDesc (m_duplication_desc s1)) * RowPitch e in
            let buffer = map (staging_pixels s1) [0 ..< unat data_size] in
            let s2 = emit [EvUnmap] s1 in
            (Normal (TextureObj \<lparr> tex_data = buffer,
                       tex_width = Width (ModeDesc (m_duplication_desc s2)),
                       tex_height = Height (ModeDesc (m_duplication_desc s2)),
                       tex_pitch = RowPitch e \<rparr>), s2)))"

definition GetFrameInfo :: "DesktopDuplicator \<Rightarrow> completion \<times> DesktopDuplicator" where
  "GetFrameInfo s =
    (if \<not> m_initialized s then (Normal Undefined, s) else
     (Normal (FrameInfoObj \<lparr>
        info_width = Width (ModeDesc (m_duplication_desc s)),
        info_height = Height (ModeDesc (m_duplication_desc s)),
        info_refresh_num = Numerator (RefreshRate (ModeDesc (m_duplication_desc s))),
        info_refresh_den = Denominator (RefreshRate (ModeDesc (m_duplication_desc s))),
        info_frameCount = m_frame_count s \<rparr>), s))"

definition Release :: "DesktopDuplicator \<Rightarrow> completion \<times> DesktopDuplicator" where
  "Release s =
    (let s1 = (case m_duplication s of
                 None \<Rightarrow> s
               | Some dup \<Rightarrow> (emit [EvReleaseFrame, EvRelease Duplication dup] s)\<lparr> m_duplication := None \<rparr>);
         s2 = (emit (dropped Staging (m_staging_texture s1)) s1)\<lparr> m_staging_texture := None \<rparr>;
         s3 = (emit (dropped Context (m_context s2)) s2)\<lparr> m_context := None \<rparr>;
         s4 = (emit (dropped Device (m_device s3)) s3)\<lparr> m_device := None \<rparr>
     in (Normal Undefined, s4\<lparr> m_initialized := False \<rparr>))"

subsection \<open>Sequences of calls on one object\<close>

datatype call =
    CallInitialize "js_value list" init_env
  | CallCaptureFrame capture_env
  | CallGetTexture texture_env
  | CallGetFrameInfo
  | CallRelease

fun step :: "call \<Rightarrow> DesktopDuplicator \<Rightarrow> completion \<times> DesktopDuplicator" where
  "step (CallInitialize args e) s = Initialize args e s"
| "step (CallCaptureFrame e) s = CaptureFrame e s"
| "step (CallGetTexture e) s = GetTexture e s"
| "step CallGetFrameInfo s = GetFrameInfo s"
| "step CallRelease s = Release s"

text \<open>
  The calls are made one after the other; a call through a null pointer ends
  the run.
\<close>

fun run :: "call list \<Rightarrow> DesktopDuplicator \<Rightarrow> completion list \<times> DesktopDuplicator" where
  "run [] s = ([], s)"
| "run (c # cs) s =
    (case step c s of
       (NullDeref, s') \<Rightarrow> ([NullDeref], s')
     | (r, s') \<Rightarrow> (case run cs s' of (rs, s'') \<Rightarrow> (r # rs, s'')))"

subsection \<open>The destructor\<close>

text \<open>
  Modelled from the spec: \<open>napi.h\<close> (node-addon-api) and Node-API are not part
  of the repository. The destructor first constructs
  \<open>Napi::CallbackInfo(Env(), nullptr)\<close> and then calls \<open>Release\<close> with it.
  The constructor of \<open>CallbackInfo\<close> calls \<open>napi_get_cb_info\<close> on the
  callback info it is given and hands the status to
  \<open>NAPI_THROW_IF_FAILED_VOID\<close>: on a status other than \<open>napi_ok\<close>, a build
  with C++ exceptions throws a \<open>Napi::Error\<close>, which leaves the destructor and
  ends the process before \<open>Release\<close> runs; a build without them leaves a
  JavaScript exception pending and goes on, so \<open>Release\<close> runs (it reads only
  the environment of its argument). \<open>napi_get_cb_info\<close> answers
  \<open>napi_invalid_arg\<close>, with the message "Invalid argument", when the
  callback info is null, which is the argument the destructor passes.
\<close>

datatype napi_status = napi_ok | napi_invalid_arg

definition napi_get_cb_info_nullptr :: napi_status where
  "napi_get_cb_info_nullptr = napi_invalid_arg"

definition Destructor ::
  "bool \<Rightarrow> DesktopDuplicator \<Rightarrow> completion \<times> DesktopDuplicator" where
  "Destructor cpp_exceptions s =
    (if napi_get_cb_info_nullptr = napi_ok then Release s
     else if cpp_exceptions then (Terminate, s)
     else (Throw ''Invalid argument'' Undefined, snd (Release s)))"

section \<open>Vocabulary of the properties\<close>

text \<open>
  Reading the log from the left: which acquisitions succeeded while a frame was
  already held. \<open>frame_track held log\<close> is \<open>None\<close> when some
  \<open>AcquireNextFrame\<close> succeeded with a frame still held, and otherwise
  \<open>Some h\<close>, where \<open>h\<close> says whether a frame is held at the end.
\<close>

fun frame_track :: "bool \<Rightarrow> event list \<Rightarrow> bool option" where
  "frame_track held [] = Some held"
| "frame_track held (EvAcquireNextFrame hr # es) =
     (if SUCCEEDED hr then (if held then None else frame_track True es)
      else frame_track held es)"
| "frame_track held (EvReleaseFrame # es) = frame_track False es"
| "frame_track held (_ # es) = frame_track held es"

text \<open>
  What holds between any two calls on an object that started fresh: an
  initialized object has its duplication interface, context and staging texture,
  and no frame is held.
\<close>

definition ready_inv :: "DesktopDuplicator \<Rightarrow> bool" where
  "ready_inv s =
     ((if m_initialized s
       then m_duplication s \<noteq> None \<and> m_context s \<noteq> None \<and> m_staging_texture s \<noteq> None
       else True)
      \<and> frame_track False (platform_log s) = Some False)"

fun is_capture :: "call \<Rightarrow> bool" where
  "is_capture (CallCaptureFrame e) = True"
| "is_capture _ = False"



text \<open>
  Every platform call of one \<open>initialize\<close> succeeds.
\<close>

definition init_succeeds :: "init_env \<Rightarrow> bool" where
  "init_succeeds e =
     (SUCCEEDED (hr_create_device e) \<and> SUCCEEDED (hr_query_dxgi_device e) \<and>
      SUCCEEDED (hr_get_adapter e) \<and> SUCCEEDED (hr_enum_outputs e) \<and>
      SUCCEEDED (hr_query_output1 e) \<and> SUCCEEDED (hr_duplicate_output e) \<and>
      SUCCEEDED (hr_create_texture e))"

fun texture_of :: "completion \<Rightarrow> texture_obj option" where
  "texture_of (Normal (TextureObj t)) = Some t"
| "texture_of _ = None"

fun frame_info_of :: "completion \<Rightarrow> frame_info_obj option" where
  "frame_info_of (Normal (FrameInfoObj i)) = Some i"
| "frame_info_of _ = None"

text \<open>
  The number of \<open>captureFrame\<close> calls of a run that returned true, and
  whether a run has a \<open>getFrameInfo\<close> that returned an object or an
  \<open>initialize\<close> that returned true.
\<close>

definition true_captures :: "call list \<Rightarrow> completion list \<Rightarrow> nat" where
  "true_captures cs rs =
     length (filter (\<lambda>(c, r). is_capture c \<and> r = Normal (Boolean True)) (zip cs rs))"







section \<open>Concrete objects and platform answers\<close>

definition desc0 :: DXGI_OUTDUPL_DESC where
  "desc0 = \<lparr> ModeDesc = \<lparr> Width = 2, Height = 2,
       RefreshRate = \<lparr> Numerator = 60, Denominator = 1 \<rparr>, Format = 87 \<rparr> \<rparr>"

definition px0 :: pixels where
  "px0 = (\<lambda>i. 0)"

definition frame0 :: pixels where
  "frame0 = (\<lambda>i. 255)"

definition env_init_ok :: init_env where
  "env_init_ok = \<lparr> hr_create_device = S_OK, new_device = 1, new_context = 2,
     hr_query_dxgi_device = S_OK, hr_get_adapter = S_OK, hr_enum_outputs = S_OK,
     hr_query_output1 = S_OK, hr_duplicate_output = S_OK, new_duplication = 3,
     out_desc = desc0, hr_create_texture = S_OK, new_staging = 4,
     new_staging_pixels = px0 \<rparr>"

text \<open>
  \<open>EnumOutputs\<close> answers \<open>DXGI_ERROR_NOT_FOUND\<close>: the output index is out
  of range.
\<close>

definition env_init_no_output :: init_env where
  "env_init_no_output = env_init_ok\<lparr> hr_enum_outputs := 0x887A0002 \<rparr>"



definition env_capture_ok :: capture_env where
  "env_capture_ok = \<lparr> hr_acquire = S_OK, hr_query_texture = S_OK, frame_pixels = frame0 \<rparr>"

definition env_capture_lost :: capture_env where
  "env_capture_lost = \<lparr> hr_acquire = DXGI_ERROR_ACCESS_LOST, hr_query_texture = S_OK,
     frame_pixels = frame0 \<rparr>"


text \<open>
  An object after one successful \<open>initialize\<close>; the same object after one
  successful \<open>captureFrame\<close>; and an initialized object with an acquired
  frame that was never released, a state no sequence of calls reaches.
\<close>

definition ready0 :: DesktopDuplicator where
  "ready0 = snd (Initialize [] env_init_ok (fresh desc0 px0))"

definition counted0 :: DesktopDuplicator where
  "counted0 = snd (CaptureFrame env_capture_ok ready0)"

definition held0 :: DesktopDuplicator where
  "held0 = emit [EvAcquireNextFrame S_OK] ready0"

text \<open>
  More answers to \<open>captureFrame\<close>: no new frame; a frame whose resource is
  not a texture (\<open>E_NOINTERFACE\<close>); and \<open>DXGI_ERROR_INVALID_CALL\<close>, the
  answer of \<open>AcquireNextFrame\<close> when the previous frame was not released.
\<close>

definition env_capture_invalid_call :: capture_env where
  "env_capture_invalid_call = \<lparr> hr_acquire = DXGI_ERROR_INVALID_CALL,
     hr_query_texture = S_OK, frame_pixels = frame0 \<rparr>"

definition env_capture_timeout :: capture_env where
  "env_capture_timeout = \<lparr> hr_acquire = DXGI_ERROR_WAIT_TIMEOUT, hr_query_texture = S_OK,
     frame_pixels = frame0 \<rparr>"

definition env_capture_no_texture :: capture_env where
  "env_capture_no_texture = \<lparr> hr_acquire = S_OK, hr_query_texture = 0x80004002,
     frame_pixels = frame0 \<rparr>"


definition calls0 :: "call list" where
  "calls0 = [CallCaptureFrame env_capture_ok, CallCaptureFrame env_capture_timeout,
     CallCaptureFrame env_capture_no_texture, CallGetFrameInfo,
     CallCaptureFrame env_capture_ok, CallCaptureFrame env_capture_lost,
     CallCaptureFrame env_capture_ok]"





section \<open>Facts about the platform codes and the log\<close>

lemma FAILED_iff: "FAILED hr = (\<not> SUCCEEDED hr)"
  by (auto simp: FAILED_def SUCCEEDED_def)

lemma SUCCEEDED_S_OK: "SUCCEEDED S_OK"
  by (simp add: SUCCEEDED_def S_OK_def)

lemma not_SUCCEEDED_timeout: "\<not> SUCCEEDED DXGI_ERROR_WAIT_TIMEOUT"
  by (simp add: SUCCEEDED_def DXGI_ERROR_WAIT_TIMEOUT_def)

lemma not_SUCCEEDED_lost: "\<not> SUCCEEDED DXGI_ERROR_ACCESS_LOST"
  by (simp add: SUCCEEDED_def DXGI_ERROR_ACCESS_LOST_def)


lemma S_OK_not_timeout: "S_OK \<noteq> DXGI_ERROR_WAIT_TIMEOUT"
  by (simp add: S_OK_def DXGI_ERROR_WAIT_TIMEOUT_def)

lemma frame_track_append:
  "frame_track h (xs @ ys) =
     (case frame_track h xs of None \<Rightarrow> None | Some h' \<Rightarrow> frame_track h' ys)"
  by (induction h xs rule: frame_track.induct) simp_all

lemma frame_track_dropped: "frame_track h (dropped r p) = Some h"
  by (cases p) (simp_all add: dropped_def)

section \<open>Runs\<close>

lemma run_Cons_snd:
  "snd (run (c # cs) s) =
     (if fst (step c s) = NullDeref then snd (step c s) else snd (run cs (snd (step c s))))"
  by (cases "step c s"; cases "fst (step c s)") (auto split: prod.splits)

lemma run_Cons_fst:
  "fst (run (c # cs) s) =
     (if fst (step c s) = NullDeref then [NullDeref]
      else fst (step c s) # fst (run cs (snd (step c s))))"
  by (cases "step c s"; cases "fst (step c s)") (auto split: prod.splits)

section \<open>The methods one by one\<close>

subsection \<open>Release\<close>

lemma Release_result: "fst (Release s) = Normal Undefined"
  by (simp add: Release_def Let_def)

lemma Release_fields:
  "m_device (snd (Release s)) = None"
  "m_context (snd (Release s)) = None"
  "m_duplication (snd (Release s)) = None"
  "m_staging_texture (snd (Release s)) = None"
  "m_initialized (snd (Release s)) = False"
  "m_frame_count (snd (Release s)) = m_frame_count s"
  by (simp_all add: Release_def Let_def emit_def split: option.splits)

lemma Release_log:
  "platform_log (snd (Release s)) = platform_log s
     @ (case m_duplication s of None \<Rightarrow> [] | Some d \<Rightarrow> [EvReleaseFrame, EvRelease Duplication d])
     @ dropped Staging (m_staging_texture s)
     @ dropped Context (m_context s)
     @ dropped Device (m_device s)"
  by (simp add: Release_def Let_def emit_def split: option.splits)

lemma Release_again: "Release (snd (Release s)) = (Normal Undefined, snd (Release s))"
  by (simp add: Release_def Let_def emit_def dropped_def split: option.splits)

lemma run_Release_fst: "fst (run (replicate n CallRelease) s) = replicate n (Normal Undefined)"
  by (induction n arbitrary: s) (simp_all add: run_Cons_fst Release_result del: run.simps(2))

lemma run_Release_again:
  "snd (run (replicate n CallRelease) (snd (Release s))) = snd (Release s)"
proof (induction n)
  case 0
  show ?case by simp
next
  case (Suc n)
  then show ?case
    by (simp add: run_Cons_snd Release_again del: run.simps(2))
qed

lemma run_Release_snd: "snd (run (replicate (Suc n) CallRelease) s) = snd (Release s)"
  by (simp add: run_Cons_snd Release_result run_Release_again del: run.simps(2))

subsection \<open>GetFrameInfo and GetTexture\<close>

lemma GetFrameInfo_state: "snd (GetFrameInfo s) = s"
  by (simp add: GetFrameInfo_def)

lemma GetFrameInfo_count:
  "map_option info_frameCount (frame_info_of (fst (GetFrameInfo s)))
     = (if m_initialized s then Some (m_frame_count s) else None)"
  by (simp add: GetFrameInfo_def)

lemma GetTexture_frame_count: "m_frame_count (snd (GetTexture e s)) = m_frame_count s"
  by (simp add: GetTexture_def Let_def emit_def split: option.splits)

subsection \<open>Initialize\<close>


lemma Initialize_frame_count: "m_frame_count (snd (Initialize args e s)) = m_frame_count s"
  by (simp add: Initialize_def InitializeD3D11_def CreateDuplication_def Let_def emit_def
      split: option.splits)

lemma Initialize_true_initialized:
  "fst (Initialize args e s) = Normal (Boolean True) \<Longrightarrow> m_initialized (snd (Initialize args e s))"
  by (auto simp: Initialize_def InitializeD3D11_def CreateDuplication_def Let_def emit_def
      split: option.splits if_splits)

subsection \<open>CaptureFrame\<close>

lemma CaptureFrame_uninitialized:
  "\<not> m_initialized s \<Longrightarrow> CaptureFrame e s = (Throw ''Not initialized'' Undefined, s)"
  by (simp add: CaptureFrame_def)

lemma CaptureFrame_frame_count:
  "m_frame_count (snd (CaptureFrame e s)) =
     (if fst (CaptureFrame e s) = Normal (Boolean True) then m_frame_count s + 1
      else m_frame_count s)"
  by (simp add: CaptureFrame_def Let_def emit_def split: option.splits)

lemma CaptureFrame_true:
  "fst (CaptureFrame e s) = Normal (Boolean True) \<Longrightarrow>
     m_initialized s \<and> SUCCEEDED (hr_acquire e) \<and> hr_acquire e \<noteq> DXGI_ERROR_WAIT_TIMEOUT
     \<and> SUCCEEDED (hr_query_texture e)"
  by (simp add: CaptureFrame_def Let_def emit_def FAILED_iff split: option.splits if_splits)

lemma CaptureFrame_throw:
  "fst (CaptureFrame e s) = Throw msg v \<Longrightarrow>
     msg = ''Not initialized'' \<and> v = Undefined \<and> \<not> m_initialized s"
  by (simp add: CaptureFrame_def Let_def emit_def split: option.splits if_splits)

section \<open>What holds between calls\<close>

lemma ready_inv_iff:
  "ready_inv s =
     ((\<not> m_initialized s \<or>
        (m_duplication s \<noteq> None \<and> m_context s \<noteq> None \<and> m_staging_texture s \<noteq> None))
      \<and> frame_track False (platform_log s) = Some False)"
  by (simp add: ready_inv_def)

lemma CaptureFrame_inv: "ready_inv s \<Longrightarrow> ready_inv (snd (CaptureFrame e s))"
  by (auto simp: ready_inv_iff CaptureFrame_def Let_def emit_def frame_track_append FAILED_iff
      not_SUCCEEDED_timeout not_SUCCEEDED_lost split: option.splits)

lemma CaptureFrame_no_fault: "ready_inv s \<Longrightarrow> fst (CaptureFrame e s) \<noteq> NullDeref"
  by (auto simp: ready_inv_iff CaptureFrame_def Let_def emit_def split: option.splits)

lemma CaptureFrame_own_calls:
  "ready_inv s \<Longrightarrow>
     frame_track False (drop (length (platform_log s)) (platform_log (snd (CaptureFrame e s))))
       = Some False"
  by (auto simp: ready_inv_iff CaptureFrame_def Let_def emit_def FAILED_iff
      not_SUCCEEDED_timeout not_SUCCEEDED_lost split: option.splits)

lemma GetTexture_inv: "ready_inv s \<Longrightarrow> ready_inv (snd (GetTexture e s))"
  by (auto simp: ready_inv_iff GetTexture_def Let_def emit_def frame_track_append
      split: option.splits)

lemma Release_inv: "ready_inv s \<Longrightarrow> ready_inv (snd (Release s))"
  by (cases "m_duplication s")
     (simp_all add: ready_inv_iff Release_fields Release_log frame_track_append
        frame_track_dropped)

lemma Initialize_inv: "ready_inv s \<Longrightarrow> ready_inv (snd (Initialize args e s))"
  by (auto simp: ready_inv_iff Initialize_def InitializeD3D11_def CreateDuplication_def
      Let_def emit_def frame_track_append frame_track_dropped split: option.splits)

lemma step_inv: "ready_inv s \<Longrightarrow> ready_inv (snd (step c s))"
  by (cases c)
     (simp_all add: CaptureFrame_inv GetTexture_inv GetFrameInfo_state Release_inv Initialize_inv)

lemma run_inv: "ready_inv s \<Longrightarrow> ready_inv (snd (run cs s))"
  by (induction cs arbitrary: s) (simp_all add: run_Cons_snd step_inv del: run.simps(2))

lemma fresh_inv: "ready_inv (fresh d px)"
  by (simp add: ready_inv_def fresh_def)

lemma reachable_inv: "ready_inv (snd (run cs (fresh d px)))"
  by (rule run_inv [OF fresh_inv])

section \<open>The frame counter along a run\<close>

lemma step_frame_count:
  "m_frame_count (snd (step c s)) =
     (if is_capture c \<and> fst (step c s) = Normal (Boolean True) then m_frame_count s + 1
      else m_frame_count s)"
  by (cases c)
     (simp_all add: CaptureFrame_frame_count GetTexture_frame_count GetFrameInfo_state
        Release_fields Initialize_frame_count)

lemma true_captures_Nil: "true_captures [] rs = 0" "true_captures cs [] = 0"
  by (simp_all add: true_captures_def)

lemma true_captures_Cons:
  "true_captures (c # cs) (r # rs) =
     (if is_capture c \<and> r = Normal (Boolean True) then 1 else 0) + true_captures cs rs"
  by (simp add: true_captures_def)

lemma true_captures_le: "true_captures cs rs \<le> length cs"
proof -
  have "true_captures cs rs \<le> length (zip cs rs)"
    unfolding true_captures_def by (rule length_filter_le)
  then show ?thesis by simp
qed

lemma run_frame_count:
  "m_frame_count (snd (run cs s)) = m_frame_count s + of_nat (true_captures cs (fst (run cs s)))"
proof (induction cs arbitrary: s)
  case Nil
  show ?case by (simp add: true_captures_Nil)
next
  case (Cons c cs)
  show ?case
  proof (cases "fst (step c s) = NullDeref")
    case True
    then show ?thesis
      by (simp add: run_Cons_snd run_Cons_fst step_frame_count true_captures_Cons
          true_captures_Nil del: run.simps(2))
  next
    case False
    then show ?thesis
      by (simp add: run_Cons_snd run_Cons_fst step_frame_count true_captures_Cons
          Cons.IH del: run.simps(2))
  qed
qed

lemma unat_add_of_nat:
  fixes a :: "64 word"
  assumes "unat a + n < 2 ^ 64"
  shows "unat (a + of_nat n) = unat a + n"
proof -
  from assms have n: "n < 2 ^ 64" by simp
  then have "unat (of_nat n :: 64 word) = n"
    by (simp add: unat_of_nat)
  with assms show ?thesis
    by (simp add: unat_add_lem [THEN iffD1])
qed

section \<open>The concrete objects\<close>

lemma ready0_eq:
  "ready0 = \<lparr> m_device = Some 1, m_context = Some 2, m_duplication = Some 3,
     m_staging_texture = Some 4, m_duplication_desc = desc0, m_initialized = True,
     m_frame_count = 0, staging_pixels = px0,
     platform_log = [EvD3D11CreateDevice S_OK, EvQueryDXGIDevice S_OK, EvGetAdapter S_OK,
       EvEnumOutputs 0 S_OK, EvQueryOutput1 S_OK, EvDuplicateOutput S_OK, EvGetDesc,
       EvCreateTexture2D 2 2 87 S_OK] \<rparr>"
  by (simp add: ready0_def Initialize_def InitializeD3D11_def CreateDuplication_def
      output_index_of_def env_init_ok_def fresh_def Let_def emit_def dropped_def
      SUCCEEDED_S_OK FAILED_iff desc0_def)

lemma counted0_eq:
  "counted0 = ready0\<lparr> m_frame_count := 1, staging_pixels := frame0,
     platform_log := platform_log ready0 @
       [EvAcquireNextFrame S_OK, EvQueryTexture S_OK, EvCopyResource, EvReleaseFrame] \<rparr>"
  by (simp add: counted0_def ready0_eq CaptureFrame_def env_capture_ok_def Let_def emit_def
      SUCCEEDED_S_OK FAILED_iff S_OK_not_timeout)

lemma held0_handles:
  "m_duplication held0 = Some 3" "m_staging_texture held0 = Some 4"
  "m_context held0 = Some 2" "m_device held0 = Some 1"
  by (simp_all add: held0_def ready0_eq emit_def)

section \<open>More facts about the methods\<close>







lemma Initialize_success:
  "\<not> m_initialized s \<Longrightarrow> init_succeeds e \<Longrightarrow>
     fst (Initialize args e s) = Normal (Boolean True) \<and>
     m_initialized (snd (Initialize args e s)) \<and>
     m_duplication (snd (Initialize args e s)) = Some (new_duplication e) \<and>
     m_context (snd (Initialize args e s)) = Some (new_context e) \<and>
     m_staging_texture (snd (Initialize args e s)) = Some (new_staging e) \<and>
     m_duplication_desc (snd (Initialize args e s)) = out_desc e"
  by (simp add: Initialize_def InitializeD3D11_def CreateDuplication_def Let_def emit_def
      init_succeeds_def FAILED_iff)









section \<open>More facts about the concrete objects\<close>

lemma init_succeeds_ok: "init_succeeds env_init_ok"
  by (simp add: init_succeeds_def env_init_ok_def SUCCEEDED_S_OK)





lemma run_calls0:
  "fst (run calls0 ready0) =
     [Normal (Boolean True), Normal (Boolean False), Normal (Boolean False),
      Normal (FrameInfoObj \<lparr> info_width = 2, info_height = 2, info_refresh_num = 60,
        info_refresh_den = 1, info_frameCount = 1 \<rparr>),
      Normal (Boolean True), Normal (Boolean False), Throw ''Not initialized'' Undefined]"
  "m_frame_count (snd (run calls0 ready0)) = 2"
  by (simp_all add: calls0_def ready0_eq CaptureFrame_def GetFrameInfo_def Let_def emit_def
      env_capture_ok_def env_capture_timeout_def env_capture_no_texture_def
      env_capture_lost_def desc0_def FAILED_def S_OK_def DXGI_ERROR_WAIT_TIMEOUT_def
      DXGI_ERROR_ACCESS_LOST_def)

section \<open>The claims\<close>

subsection \<open>Acquisition and release\<close>

text \<open>
  C1, as the code has it. After every sequence of calls on a newly constructed
  object, no \<open>AcquireNextFrame\<close> has succeeded while a frame was held and no
  frame is held; the platform calls of one further \<open>captureFrame\<close>, taken on
  their own, are paired in the same way on every path, the failed texture query
  included, and that call does not go through a null pointer. The only error
  \<open>captureFrame\<close> ever leaves pending is "Not initialized", on an object that
  is not initialized: it has no check for a frame that is already held.
\<close>

theorem acquire_release_paired:
  "frame_track False (platform_log (snd (run cs (fresh d px)))) = Some False \<and>
   frame_track False
     (drop (length (platform_log (snd (run cs (fresh d px)))))
        (platform_log (snd (CaptureFrame e (snd (run cs (fresh d px))))))) = Some False \<and>
   fst (CaptureFrame e (snd (run cs (fresh d px)))) \<noteq> NullDeref \<and>
   (fst (CaptureFrame e s) = Throw msg v \<longrightarrow>
      msg = ''Not initialized'' \<and> v = Undefined \<and> \<not> m_initialized s)"
  using reachable_inv [of cs d px] CaptureFrame_throw [of e s msg v]
    CaptureFrame_own_calls [of "snd (run cs (fresh d px))" e]
    CaptureFrame_no_fault [of "snd (run cs (fresh d px))" e]
  by (simp add: ready_inv_iff)

theorem acquire_release_paired_witness:
  "frame_track False (platform_log
     (snd (run [CallInitialize [] env_init_ok, CallCaptureFrame env_capture_ok]
            (fresh desc0 px0)))) = Some False \<and>
   fst (CaptureFrame env_capture_ok (fresh desc0 px0)) = Throw ''Not initialized'' Undefined \<and>
   \<not> m_initialized (fresh desc0 px0) \<and>
   platform_log (snd (CaptureFrame env_capture_no_texture ready0)) = platform_log ready0 @
     [EvAcquireNextFrame S_OK, EvQueryTexture 0x80004002, EvReleaseFrame]"
proof -
  have q: "platform_log (snd (CaptureFrame env_capture_no_texture ready0)) = platform_log ready0 @
     [EvAcquireNextFrame S_OK, EvQueryTexture 0x80004002, EvReleaseFrame]"
    by (simp add: ready0_eq CaptureFrame_def env_capture_no_texture_def Let_def emit_def
        FAILED_def S_OK_def DXGI_ERROR_WAIT_TIMEOUT_def)
  from acquire_release_paired
    [of "[CallInitialize [] env_init_ok, CallCaptureFrame env_capture_ok]"
      desc0 px0 env_capture_ok "fresh desc0 px0" "''Not initialized''" Undefined] q
  show ?thesis
    by (simp add: CaptureFrame_uninitialized fresh_def del: run.simps)
qed

text \<open>
  On an initialized object that holds a frame, \<open>captureFrame\<close> is not
  rejected: it calls \<open>AcquireNextFrame\<close> again. When the platform answers
  \<open>S_OK\<close> it returns true, a second acquisition with no release in between;
  when the platform answers \<open>DXGI_ERROR_INVALID_CALL\<close> it returns false, as
  for any other failure, with no error pending.
\<close>

theorem held_frame_not_rejected:
  "m_initialized held0 \<and>
   frame_track False (platform_log held0) = Some True \<and>
   fst (CaptureFrame env_capture_ok held0) = Normal (Boolean True) \<and>
   platform_log (snd (CaptureFrame env_capture_ok held0)) = platform_log held0 @
     [EvAcquireNextFrame S_OK, EvQueryTexture S_OK, EvCopyResource, EvReleaseFrame] \<and>
   frame_track False (platform_log (snd (CaptureFrame env_capture_ok held0))) = None \<and>
   CaptureFrame env_capture_invalid_call held0
     = (Normal (Boolean False), emit [EvAcquireNextFrame DXGI_ERROR_INVALID_CALL] held0)"
  by (simp add: held0_def ready0_eq CaptureFrame_def env_capture_ok_def
      env_capture_invalid_call_def Let_def emit_def FAILED_def S_OK_def
      DXGI_ERROR_WAIT_TIMEOUT_def DXGI_ERROR_ACCESS_LOST_def DXGI_ERROR_INVALID_CALL_def
      SUCCEEDED_def)

subsection \<open>A lost duplication\<close>










subsection \<open>The frame counter\<close>

text \<open>
  C3. One call changes \<open>frame_count_\<close> exactly when it is a \<open>captureFrame\<close>
  that returns true, and then by one; such a call is made on an initialized
  object, its acquisition succeeded (so it was neither the timeout nor a
  failure) and so did its texture query. Along any run the counter is the
  starting value plus the number of \<open>captureFrame\<close> calls that returned true,
  in 64-bit arithmetic, hence as numbers whenever the starting value plus the
  number of calls stays below \<open>2 ^ 64\<close>: it never decreases. \<open>getFrameInfo\<close>
  reports this counter.
\<close>

theorem frame_count_monotone:
  "m_frame_count (snd (step c s)) =
     (if is_capture c \<and> fst (step c s) = Normal (Boolean True) then m_frame_count s + 1
      else m_frame_count s) \<and>
   (fst (CaptureFrame e s) = Normal (Boolean True) \<longrightarrow>
      m_initialized s \<and> SUCCEEDED (hr_acquire e) \<and> hr_acquire e \<noteq> DXGI_ERROR_WAIT_TIMEOUT
      \<and> SUCCEEDED (hr_query_texture e)) \<and>
   m_frame_count (snd (run cs s)) = m_frame_count s + of_nat (true_captures cs (fst (run cs s))) \<and>
   (unat (m_frame_count s) + length cs < 2 ^ 64 \<longrightarrow>
      unat (m_frame_count (snd (run cs s)))
        = unat (m_frame_count s) + true_captures cs (fst (run cs s))) \<and>
   map_option info_frameCount (frame_info_of (fst (GetFrameInfo s)))
     = (if m_initialized s then Some (m_frame_count s) else None)"
proof -
  have "unat (m_frame_count (snd (run cs s)))
          = unat (m_frame_count s) + true_captures cs (fst (run cs s))"
    if "unat (m_frame_count s) + length cs < 2 ^ 64"
  proof -
    from that true_captures_le [of cs "fst (run cs s)"]
    have "unat (m_frame_count s) + true_captures cs (fst (run cs s)) < 2 ^ 64" by simp
    then show ?thesis
      by (simp only: run_frame_count [of cs s] unat_add_of_nat)
  qed
  then show ?thesis
    using step_frame_count [of c s] CaptureFrame_true [of e s] run_frame_count [of cs s]
      GetFrameInfo_count [of s]
    by blast
qed

theorem frame_count_monotone_witness:
  "fst (CaptureFrame env_capture_ok ready0) = Normal (Boolean True) \<and>
   m_initialized ready0 \<and> SUCCEEDED (hr_acquire env_capture_ok) \<and>
   unat (m_frame_count ready0) + length calls0 < 2 ^ 64 \<and>
   true_captures calls0 (fst (run calls0 ready0)) = 2 \<and>
   unat (m_frame_count (snd (run calls0 ready0))) = 2"
proof -
  have tc: "true_captures calls0 (fst (run calls0 ready0)) = 2"
    by (simp add: run_calls0 true_captures_def) (simp add: calls0_def)
  have cap: "fst (CaptureFrame env_capture_ok ready0) = Normal (Boolean True)"
    by (simp add: ready0_eq CaptureFrame_def Let_def emit_def env_capture_ok_def
        SUCCEEDED_S_OK FAILED_iff S_OK_not_timeout)
  have len: "unat (m_frame_count ready0) + length calls0 < 2 ^ 64"
    by (simp add: ready0_eq calls0_def)
  have zero: "m_frame_count ready0 = 0"
    by (simp add: ready0_eq)
  from frame_count_monotone [of "CallGetFrameInfo" ready0 env_capture_ok calls0] tc cap len zero
  show ?thesis by simp
qed

subsection \<open>Capture on an object that is not initialized\<close>

text \<open>
  C4. In every state in which the object is not initialized (never initialized,
  released, or reset by a lost duplication), \<open>captureFrame\<close> leaves the error
  "Not initialized" pending and does nothing else: the state it returns,
  with its flag, counter, pointers and log of platform calls, is the state it
  was given, so no acquisition was attempted.
\<close>

theorem CaptureFrame_not_initialized:
  "\<not> m_initialized s \<Longrightarrow> CaptureFrame e s = (Throw ''Not initialized'' Undefined, s)"
  by (simp add: CaptureFrame_def)

theorem CaptureFrame_not_initialized_witness:
  "\<not> m_initialized (fresh desc0 px0) \<and>
   CaptureFrame env_capture_ok (fresh desc0 px0)
     = (Throw ''Not initialized'' Undefined, fresh desc0 px0)"
  using CaptureFrame_not_initialized [of "fresh desc0 px0" env_capture_ok]
  by (simp add: fresh_def)

subsection \<open>A failed initialize\<close>





subsection \<open>Teardown\<close>

lemma Destructor_exceptions: "Destructor True s = (Terminate, s)"
  by (simp add: Destructor_def napi_get_cb_info_nullptr_def)

lemma Destructor_no_exceptions:
  "Destructor False s = (Throw ''Invalid argument'' Undefined, snd (Release s))"
  by (simp add: Destructor_def napi_get_cb_info_nullptr_def)

text \<open>
  C7. Called as a method, \<open>release\<close> returns undefined and never calls through
  a null pointer. Its platform calls are, in this order: \<open>ReleaseFrame\<close> and
  the release of the duplication interface (when there is one), the release of
  the staging texture, of the context and of the device (each when held).
  Afterwards the four pointers are null and the object is not initialized. A
  second \<open>release\<close> changes nothing and makes no platform call, and any number
  of \<open>release\<close> calls in a row all return undefined and end in the state the
  first one left. The destructor does not get that far cleanly: it builds its
  argument from a null callback info, which Node-API rejects. In a build with
  C++ exceptions the process ends inside the destructor with every resource
  still held; in a build without them \<open>Release\<close> runs, with a JavaScript
  exception left pending.
\<close>

theorem Release_teardown:
  "fst (Release s) = Normal Undefined \<and>
   platform_log (snd (Release s)) = platform_log s
     @ (case m_duplication s of None \<Rightarrow> [] | Some d \<Rightarrow> [EvReleaseFrame, EvRelease Duplication d])
     @ dropped Staging (m_staging_texture s)
     @ dropped Context (m_context s)
     @ dropped Device (m_device s) \<and>
   m_duplication (snd (Release s)) = None \<and>
   m_staging_texture (snd (Release s)) = None \<and>
   m_context (snd (Release s)) = None \<and>
   m_device (snd (Release s)) = None \<and>
   m_initialized (snd (Release s)) = False \<and>
   Release (snd (Release s)) = (Normal Undefined, snd (Release s)) \<and>
   fst (run (replicate n CallRelease) s) = replicate n (Normal Undefined) \<and>
   snd (run (replicate (Suc n) CallRelease) s) = snd (Release s) \<and>
   Destructor True s = (Terminate, s) \<and>
   Destructor False s = (Throw ''Invalid argument'' Undefined, snd (Release s))"
  by (simp only: Release_result Release_fields Release_again run_Release_fst run_Release_snd
      Destructor_exceptions Destructor_no_exceptions Release_log simp_thms)

theorem Release_teardown_witness:
  "platform_log (snd (Release held0)) = platform_log held0 @
     [EvReleaseFrame, EvRelease Duplication 3, EvRelease Staging 4, EvRelease Context 2,
      EvRelease Device 1] \<and>
   fst (run [CallRelease, CallRelease] held0) = [Normal Undefined, Normal Undefined] \<and>
   snd (run [CallRelease, CallRelease, CallRelease] held0) = snd (Release held0) \<and>
   Destructor True held0 = (Terminate, held0) \<and>
   m_duplication held0 = Some 3 \<and> m_staging_texture held0 = Some 4 \<and>
   m_context held0 = Some 2 \<and> m_device held0 = Some 1 \<and>
   frame_track False (platform_log held0) = Some True"
proof -
  have two: "replicate 2 x = [x, x]" for x :: 'a
    by (simp add: numeral_2_eq_2)
  have three: "replicate (Suc 2) x = [x, x, x]" for x :: 'a
    by (simp add: numeral_2_eq_2)
  have held: "frame_track False (platform_log held0) = Some True"
    by (simp add: held0_def ready0_eq emit_def SUCCEEDED_S_OK)
  from Release_teardown [of held0 2] held show ?thesis
    unfolding two three by (simp add: held0_handles dropped_def del: run.simps)
qed

subsection \<open>A second initialize\<close>

text \<open>
  C8. On an object that is already initialized, \<open>initialize\<close> returns true and
  returns the state unchanged, whatever its argument and whatever the platform
  would have answered: no pointer is replaced and no platform call is made.
\<close>

theorem Initialize_when_ready:
  "m_initialized s \<Longrightarrow> Initialize args e s = (Normal (Boolean True), s)"
  by (simp add: Initialize_def)

theorem Initialize_when_ready_witness:
  "m_initialized ready0 \<and>
   Initialize [Number 0] env_init_no_output ready0 = (Normal (Boolean True), ready0)"
  using Initialize_when_ready [of ready0 "[Number 0]" env_init_no_output]
  by (simp add: ready0_eq)

subsection \<open>The staging texture after a loss\<close>













subsection \<open>The frame counter across release\<close>

text \<open>
  C10. \<open>release\<close> leaves \<open>frame_count_\<close> as it was, and after a
  \<open>release\<close> followed by an \<open>initialize\<close> that returns true
  \<open>getFrameInfo\<close> reports as \<open>frameCount\<close> the value the counter had before
  the \<open>release\<close>, not zero.
\<close>

theorem Release_keeps_frame_count:
  "m_frame_count (snd (Release s)) = m_frame_count s \<and>
   (fst (Initialize args e (snd (Release s))) = Normal (Boolean True) \<longrightarrow>
      map_option info_frameCount
        (frame_info_of (fst (GetFrameInfo (snd (Initialize args e (snd (Release s)))))))
      = Some (m_frame_count s))"
  by (simp add: Release_fields GetFrameInfo_count Initialize_frame_count
      Initialize_true_initialized)

theorem Release_keeps_frame_count_witness:
  "m_frame_count counted0 = 1 \<and>
   fst (Initialize [] env_init_ok (snd (Release counted0))) = Normal (Boolean True) \<and>
   map_option info_frameCount
     (frame_info_of (fst (GetFrameInfo (snd (Initialize [] env_init_ok (snd (Release counted0)))))))
     = Some 1"
proof -
  have c: "m_frame_count counted0 = 1"
    by (simp add: counted0_eq)
  have i: "fst (Initialize [] env_init_ok (snd (Release counted0))) = Normal (Boolean True)"
    using Initialize_success [of "snd (Release counted0)" env_init_ok "[]"]
    by (simp add: Release_fields init_succeeds_ok)
  from Release_keeps_frame_count [of counted0 "[]" env_init_ok] c i
  show ?thesis by simp
qed

end
